theory Spec2Isabelle
  imports Complex_Main
begin

section \<open>Ruralis: agrochemical stock and expense tracking\<close>

text \<open>
  The repository holds two versions of one FastAPI application over an SQLite store:
  \<^item> \<^verbatim>\<open>src/main.py\<close>: users, agrochemicals, and an apply operation that stores one cost
    (\<^verbatim>\<open>costo_total\<close>, the amount divided by 1000);
  \<^item> \<^verbatim>\<open>src/ruralis/main.py\<close>: agrochemicals with a currency, an apply operation that stores a
    cost in ARS and one in USD (through an exchange-rate lookup), and a cost report.
  Definitions of the first carry the prefix \<open>main_\<close>, of the second \<open>ruralis_\<close>.

  Conventions of the embedding:
  \<^item> a Python \<^verbatim>\<open>float\<close> is a \<^typ>\<open>real\<close>: rounding, overflow, infinities and NaN are not
    modelled, so every statement below is about exact arithmetic; a Python \<^verbatim>\<open>int\<close> is an
    \<^typ>\<open>int\<close>, and its conversion to a float fails where Python's does;
  \<^item> a table is the list of its rows, in insertion order; the session's pending changes reach
    the table at \<^verbatim>\<open>commit\<close>, and are dropped when the request ends with an exception;
  \<^item> an endpoint takes the store and returns its outcome with the store it leaves behind;
  \<^item> the wall clock and the HTTP exchange with the rate service are parameters.
\<close>

subsection \<open>Outcomes of an endpoint\<close>

datatype exn =
    TypeError | NameError | KeyError | AttributeError | OverflowError
  | JSONDecodeError | RequestException | IntegrityError

text \<open>The value of a returned dictionary's \<^verbatim>\<open>"error"\<close> and \<^verbatim>\<open>"message"\<close> entries.\<close>

datatype error_msg = Usuario_no_encontrado | Agroquimico_no_encontrado | Stock_insuficiente

datatype message =
    Usuario_creado | Usuario_eliminado | Agroquimico_agregado | Agroquimico_eliminado
  | Aplicacion_registrada

text \<open>
  An endpoint either raises, or returns a body holding only an \<^verbatim>\<open>"error"\<close> entry, or returns
  its regular body.
\<close>

datatype 'a outcome = Raises exn | Returns_error error_msg | Returns 'a

subsection \<open>The store's primary keys\<close>

text \<open>
  An \<^verbatim>\<open>Integer\<close> primary key of SQLite: a new row gets the largest key of the table plus one,
  and 1 in an empty table.
\<close>

definition next_id :: "int list \<Rightarrow> int" where
  "next_id ids = (case ids of [] \<Rightarrow> 1 | i # js \<Rightarrow> fold max js i + 1)"

subsection \<open>\<^verbatim>\<open>src/main.py\<close>: tables\<close>

record user =
  u_id :: int
  u_name :: string
  u_email :: string

record main_agroquimico =
  m_id :: int
  m_nombre :: string
  m_cantidad :: real
  m_unidad :: string
  m_precio_unitario :: real

record main_gasto =
  mg_id :: int
  mg_agroquimico_id :: int
  mg_cantidad_aplicada :: real
  mg_costo_total :: real
  mg_fecha :: string

record main_db =
  users :: "user list"
  m_agroquimicos :: "main_agroquimico list"
  m_gastos :: "main_gasto list"

subsection \<open>\<^verbatim>\<open>src/main.py\<close>: users\<close>

record user_create =
  uc_name :: string
  uc_email :: string

text \<open>
  \<^verbatim>\<open>create_user\<close>: the column \<^verbatim>\<open>email\<close> is unique, so the commit of a second row with a stored
  email raises and the row is not kept.
\<close>

definition create_user :: "user_create \<Rightarrow> main_db \<Rightarrow> (message \<times> user) outcome \<times> main_db" where
  "create_user req db =
     (if uc_email req \<in> set (map u_email (users db)) then (Raises IntegrityError, db)
      else
        let db_user = \<lparr>u_id = next_id (map u_id (users db)),
                       u_name = uc_name req, u_email = uc_email req\<rparr>
        in (Returns (Usuario_creado, db_user), db\<lparr>users := users db @ [db_user]\<rparr>))"

definition get_users :: "main_db \<Rightarrow> user list outcome \<times> main_db" where
  "get_users db = (Returns (users db), db)"

definition delete_user :: "int \<Rightarrow> main_db \<Rightarrow> message outcome \<times> main_db" where
  "delete_user user_id db =
     (case find (\<lambda>u. u_id u = user_id) (users db) of
        None \<Rightarrow> (Returns_error Usuario_no_encontrado, db)
      | Some db_user \<Rightarrow>
          (Returns Usuario_eliminado,
           db\<lparr>users := filter (\<lambda>u. u_id u \<noteq> u_id db_user) (users db)\<rparr>))"

subsection \<open>\<^verbatim>\<open>src/main.py\<close>: agrochemicals\<close>

record main_agroquimico_create =
  mc_nombre :: string
  mc_cantidad :: real
  mc_unidad :: string
  mc_precio_unitario :: real

definition main_create_agroquimico ::
  "main_agroquimico_create \<Rightarrow> main_db \<Rightarrow> (message \<times> main_agroquimico) outcome \<times> main_db" where
  "main_create_agroquimico req db =
     (let db_agroquimico =
            \<lparr>m_id = next_id (map m_id (m_agroquimicos db)),
             m_nombre = mc_nombre req, m_cantidad = mc_cantidad req,
             m_unidad = mc_unidad req, m_precio_unitario = mc_precio_unitario req\<rparr>
      in (Returns (Agroquimico_agregado, db_agroquimico),
          db\<lparr>m_agroquimicos := m_agroquimicos db @ [db_agroquimico]\<rparr>))"

definition main_get_agroquimicos :: "main_db \<Rightarrow> main_agroquimico list outcome \<times> main_db" where
  "main_get_agroquimicos db = (Returns (m_agroquimicos db), db)"

definition delete_agroquimico :: "int \<Rightarrow> main_db \<Rightarrow> message outcome \<times> main_db" where
  "delete_agroquimico agroquimico_id db =
     (case find (\<lambda>a. m_id a = agroquimico_id) (m_agroquimicos db) of
        None \<Rightarrow> (Returns_error Agroquimico_no_encontrado, db)
      | Some db_agroquimico \<Rightarrow>
          (Returns Agroquimico_eliminado,
           db\<lparr>m_agroquimicos :=
                 filter (\<lambda>a. m_id a \<noteq> m_id db_agroquimico) (m_agroquimicos db)\<rparr>))"

subsection \<open>\<^verbatim>\<open>src/main.py\<close>: applying an agrochemical\<close>

record main_request =
  dosis_por_ha :: real
  m_hectareas :: real

text \<open>The body returned by a registered application: the agrochemical's entries, then the expense's.\<close>

record main_aplicacion =
  ma_id :: int
  ma_nombre :: string
  ma_stock_restante :: real
  ma_gasto_id :: int
  ma_cantidad_aplicada :: real
  ma_costo_total :: real
  ma_fecha :: string

text \<open>
  The assignment to \<^verbatim>\<open>db_agroquimico.cantidad\<close> is written at the commit as an update of the
  rows with that primary key; the new expense row is appended with a fresh key.
\<close>

definition main_aplicar_agroquimico ::
  "int \<Rightarrow> main_request \<Rightarrow> string \<Rightarrow> main_db \<Rightarrow> main_aplicacion outcome \<times> main_db" where
  "main_aplicar_agroquimico agroquimico_id request now db =
     (case find (\<lambda>a. m_id a = agroquimico_id) (m_agroquimicos db) of
        None \<Rightarrow> (Returns_error Agroquimico_no_encontrado, db)
      | Some db_agroquimico \<Rightarrow>
          let cantidad_necesaria = dosis_por_ha request * m_hectareas request in
          if m_cantidad db_agroquimico < cantidad_necesaria
          then (Returns_error Stock_insuficiente, db)
          else
            let stock = m_cantidad db_agroquimico - cantidad_necesaria;
                costo_total = m_precio_unitario db_agroquimico * (cantidad_necesaria / 1000);
                nuevo_gasto =
                  \<lparr>mg_id = next_id (map mg_id (m_gastos db)),
                   mg_agroquimico_id = agroquimico_id,
                   mg_cantidad_aplicada = cantidad_necesaria,
                   mg_costo_total = costo_total,
                   mg_fecha = now\<rparr>
            in (Returns
                  \<lparr>ma_id = m_id db_agroquimico,
                   ma_nombre = m_nombre db_agroquimico,
                   ma_stock_restante = stock,
                   ma_gasto_id = mg_id nuevo_gasto,
                   ma_cantidad_aplicada = mg_cantidad_aplicada nuevo_gasto,
                   ma_costo_total = mg_costo_total nuevo_gasto,
                   ma_fecha = mg_fecha nuevo_gasto\<rparr>,
                db\<lparr>m_agroquimicos :=
                      map (\<lambda>a. if m_id a = m_id db_agroquimico then a\<lparr>m_cantidad := stock\<rparr> else a)
                          (m_agroquimicos db),
                    m_gastos := m_gastos db @ [nuevo_gasto]\<rparr>))"

definition main_get_gastos :: "main_db \<Rightarrow> main_gasto list outcome \<times> main_db" where
  "main_get_gastos db = (Returns (m_gastos db), db)"

subsection \<open>\<^verbatim>\<open>src/main.py\<close>: sequences of requests\<close>

datatype main_op =
    Create_user user_create
  | Get_users
  | Delete_user int
  | Create_agroquimico main_agroquimico_create
  | Get_agroquimicos
  | Delete_agroquimico int
  | Aplicar_agroquimico int main_request string
  | Get_gastos

fun main_step :: "main_op \<Rightarrow> main_db \<Rightarrow> main_db" where
  "main_step (Create_user req) db = snd (create_user req db)"
| "main_step Get_users db = snd (get_users db)"
| "main_step (Delete_user i) db = snd (delete_user i db)"
| "main_step (Create_agroquimico req) db = snd (main_create_agroquimico req db)"
| "main_step Get_agroquimicos db = snd (main_get_agroquimicos db)"
| "main_step (Delete_agroquimico i) db = snd (delete_agroquimico i db)"
| "main_step (Aplicar_agroquimico i req now) db = snd (main_aplicar_agroquimico i req now db)"
| "main_step Get_gastos db = snd (main_get_gastos db)"

definition main_run :: "main_op list \<Rightarrow> main_db \<Rightarrow> main_db" where
  "main_run ops db = fold main_step ops db"

text \<open>The requests the stock invariant is stated for, and the invariant.\<close>

fun main_op_ok :: "main_op \<Rightarrow> bool" where
  "main_op_ok (Create_agroquimico req) = (0 \<le> mc_cantidad req)"
| "main_op_ok (Aplicar_agroquimico i req now) = (0 < dosis_por_ha req \<and> 0 < m_hectareas req)"
| "main_op_ok _ = True"

definition main_stock_ok :: "main_db \<Rightarrow> bool" where
  "main_stock_ok db = list_all (\<lambda>a. 0 \<le> m_cantidad a) (m_agroquimicos db)"

subsection \<open>\<^verbatim>\<open>src/ruralis/main.py\<close>: tables\<close>

record ruralis_agroquimico =
  r_id :: int
  r_nombre :: string
  r_cantidad :: real
  r_unidad :: string
  r_precio_unitario :: real
  r_moneda :: string

record ruralis_gasto =
  rg_id :: int
  rg_agroquimico_id :: int
  rg_cantidad_aplicada :: real
  rg_costo_total_ars :: real
  rg_costo_total_usd :: real
  rg_fecha :: string

record ruralis_db =
  r_agroquimicos :: "ruralis_agroquimico list"
  r_gastos :: "ruralis_gasto list"

subsection \<open>\<^verbatim>\<open>src/ruralis/main.py\<close>: the exchange rate\<close>

text \<open>
  What \<^verbatim>\<open>response.json()\<close> can return: a Python value read from JSON. A JSON number
  written as an integer is read as an \<^verbatim>\<open>int\<close> of any size (\<open>PInt\<close>), any other number as a
  \<^verbatim>\<open>float\<close> (\<open>PFloat\<close>). A dictionary is the list of its items, each key once.
\<close>

datatype pyval =
    PNone
  | PBool bool
  | PInt int
  | PFloat real
  | PStr string
  | PList "pyval list"
  | PDict "(string \<times> pyval) list"

text \<open>
  The exchange with the rate service: \<^verbatim>\<open>requests.get\<close> raises, or the body is not JSON and
  \<^verbatim>\<open>response.json()\<close> raises, or the body is read as a value.
\<close>

datatype http_exchange = Request_fails | Body_not_json | Body_json pyval

text \<open>\<^verbatim>\<open>v[k]\<close> with a string \<open>k\<close>, and \<^verbatim>\<open>v.get(k, d)\<close>.\<close>

fun py_getitem :: "pyval \<Rightarrow> string \<Rightarrow> exn + pyval" where
  "py_getitem (PDict kvs) k = (case map_of kvs k of None \<Rightarrow> Inl KeyError | Some v \<Rightarrow> Inr v)"
| "py_getitem _ k = Inl TypeError"

fun py_get :: "pyval \<Rightarrow> string \<Rightarrow> pyval \<Rightarrow> exn + pyval" where
  "py_get (PDict kvs) k d = Inr (case map_of kvs k of None \<Rightarrow> d | Some v \<Rightarrow> v)"
| "py_get _ k d = Inl AttributeError"

text \<open>The body of the \<^verbatim>\<open>try\<close> block of \<^verbatim>\<open>obtener_tipo_cambio\<close>, and the function with its handler.\<close>

definition obtener_tipo_cambio_try :: "http_exchange \<Rightarrow> exn + pyval" where
  "obtener_tipo_cambio_try http =
     (case http of
        Request_fails \<Rightarrow> Inl RequestException
      | Body_not_json \<Rightarrow> Inl JSONDecodeError
      | Body_json data \<Rightarrow>
          (case py_getitem data ''rates'' of
             Inl e \<Rightarrow> Inl e
           | Inr rates \<Rightarrow> py_get rates ''USD'' (PFloat 0.001)))"

definition obtener_tipo_cambio :: "http_exchange \<Rightarrow> pyval" where
  "obtener_tipo_cambio http =
     (case obtener_tipo_cambio_try http of Inl e \<Rightarrow> PFloat 0.001 | Inr v \<Rightarrow> v)"

text \<open>
  The conversion of an \<^verbatim>\<open>int\<close> to a \<^verbatim>\<open>float\<close>: it raises \<^verbatim>\<open>OverflowError\<close> from
  \<open>2 ^ 1024 - 2 ^ 970\<close> on in absolute value, half-way between the largest float and
  \<open>2 ^ 1024\<close>.
\<close>

definition int_to_float :: "int \<Rightarrow> exn + real" where
  "int_to_float n =
     (if 2 ^ 1024 - 2 ^ 970 \<le> \<bar>n\<bar> then Inl OverflowError else Inr (real_of_int n))"

text \<open>
  \<^verbatim>\<open>x * v\<close> for a float \<open>x\<close>: the product with a float, with an int converted to a float
  (the conversion may raise), with \<^verbatim>\<open>True\<close> or \<^verbatim>\<open>False\<close> as 1 or 0; a \<^verbatim>\<open>TypeError\<close> for any
  other value. The product of two floats never raises.
\<close>

fun float_mul :: "real \<Rightarrow> pyval \<Rightarrow> exn + real" where
  "float_mul x (PFloat r) = Inr (x * r)"
| "float_mul x (PInt n) = (case int_to_float n of Inl e \<Rightarrow> Inl e | Inr r \<Rightarrow> Inr (x * r))"
| "float_mul x (PBool b) = Inr (x * (if b then 1 else 0))"
| "float_mul x v = Inl TypeError"

text \<open>The value of a Python number, for the statements about the rate.\<close>

fun py_number :: "pyval \<Rightarrow> real option" where
  "py_number (PFloat r) = Some r"
| "py_number (PInt n) = Some (real_of_int n)"
| "py_number (PBool b) = Some (if b then 1 else 0)"
| "py_number _ = None"

subsection \<open>\<^verbatim>\<open>src/ruralis/main.py\<close>: agrochemicals\<close>

text \<open>\<^verbatim>\<open>moneda\<close> is \<open>None\<close> when the request leaves it out; the model's default is then used.\<close>

record ruralis_agroquimico_create =
  rc_nombre :: string
  rc_cantidad :: real
  rc_unidad :: string
  rc_precio_unitario :: real
  rc_moneda :: "string option"

definition ruralis_create_agroquimico ::
  "ruralis_agroquimico_create \<Rightarrow> ruralis_db
     \<Rightarrow> (message \<times> ruralis_agroquimico) outcome \<times> ruralis_db" where
  "ruralis_create_agroquimico req db =
     (let db_agroquimico =
            \<lparr>r_id = next_id (map r_id (r_agroquimicos db)),
             r_nombre = rc_nombre req, r_cantidad = rc_cantidad req,
             r_unidad = rc_unidad req, r_precio_unitario = rc_precio_unitario req,
             r_moneda = (case rc_moneda req of None \<Rightarrow> ''ARS'' | Some m \<Rightarrow> m)\<rparr>
      in (Returns (Agroquimico_agregado, db_agroquimico),
          db\<lparr>r_agroquimicos := r_agroquimicos db @ [db_agroquimico]\<rparr>))"

definition ruralis_get_agroquimicos ::
  "ruralis_db \<Rightarrow> ruralis_agroquimico list outcome \<times> ruralis_db" where
  "ruralis_get_agroquimicos db = (Returns (r_agroquimicos db), db)"

subsection \<open>\<^verbatim>\<open>src/ruralis/main.py\<close>: applying an agrochemical\<close>

record ruralis_request =
  dosis :: real
  r_hectareas :: real

record ruralis_aplicacion =
  ra_id :: int
  ra_nombre :: string
  ra_stock_restante :: real
  ra_gasto_id :: int
  ra_cantidad_aplicada :: real
  ra_costo_total_ars :: real
  ra_costo_total_usd :: real
  ra_fecha :: string

text \<open>
  The rate is fetched after the stock check. When the product with the rate raises, nothing
  has been committed, and the store is as it was.
\<close>

definition ruralis_aplicar_agroquimico ::
  "int \<Rightarrow> ruralis_request \<Rightarrow> http_exchange \<Rightarrow> string \<Rightarrow> ruralis_db
     \<Rightarrow> ruralis_aplicacion outcome \<times> ruralis_db" where
  "ruralis_aplicar_agroquimico agroquimico_id request http now db =
     (case find (\<lambda>a. r_id a = agroquimico_id) (r_agroquimicos db) of
        None \<Rightarrow> (Returns_error Agroquimico_no_encontrado, db)
      | Some db_agroquimico \<Rightarrow>
          let cantidad_aplicada = dosis request * r_hectareas request in
          if r_cantidad db_agroquimico < cantidad_aplicada
          then (Returns_error Stock_insuficiente, db)
          else
            let stock = r_cantidad db_agroquimico - cantidad_aplicada;
                costo_total_ars = r_precio_unitario db_agroquimico * cantidad_aplicada;
                tipo_cambio = obtener_tipo_cambio http
            in case (if r_moneda db_agroquimico = ''ARS''
                     then float_mul costo_total_ars tipo_cambio
                     else Inr costo_total_ars) of
                 Inl e \<Rightarrow> (Raises e, db)
               | Inr costo_total_usd \<Rightarrow>
                   let nuevo_gasto =
                         \<lparr>rg_id = next_id (map rg_id (r_gastos db)),
                          rg_agroquimico_id = agroquimico_id,
                          rg_cantidad_aplicada = cantidad_aplicada,
                          rg_costo_total_ars = costo_total_ars,
                          rg_costo_total_usd = costo_total_usd,
                          rg_fecha = now\<rparr>
                   in (Returns
                         \<lparr>ra_id = r_id db_agroquimico,
                          ra_nombre = r_nombre db_agroquimico,
                          ra_stock_restante = stock,
                          ra_gasto_id = rg_id nuevo_gasto,
                          ra_cantidad_aplicada = rg_cantidad_aplicada nuevo_gasto,
                          ra_costo_total_ars = rg_costo_total_ars nuevo_gasto,
                          ra_costo_total_usd = rg_costo_total_usd nuevo_gasto,
                          ra_fecha = rg_fecha nuevo_gasto\<rparr>,
                       db\<lparr>r_agroquimicos :=
                             map (\<lambda>a. if r_id a = r_id db_agroquimico
                                       then a\<lparr>r_cantidad := stock\<rparr> else a)
                                 (r_agroquimicos db),
                           r_gastos := r_gastos db @ [nuevo_gasto]\<rparr>))"

definition ruralis_get_gastos :: "ruralis_db \<Rightarrow> ruralis_gasto list outcome \<times> ruralis_db" where
  "ruralis_get_gastos db = (Returns (r_gastos db), db)"

subsection \<open>\<^verbatim>\<open>src/ruralis/main.py\<close>: the cost report\<close>

text \<open>
  The names bound in the module when a request is served: its imports, assignments, classes
  and functions. The report looks up the name \<^verbatim>\<open>func\<close>, which is not among them.
\<close>

definition ruralis_globals :: "string list" where
  "ruralis_globals =
     [''FastAPI'', ''Depends'', ''BaseModel'', ''create_engine'', ''Column'', ''Integer'',
      ''String'', ''Float'', ''declarative_base'', ''sessionmaker'', ''Session'', ''datetime'',
      ''requests'', ''app'', ''DATABASE_URL'', ''engine'', ''SessionLocal'', ''Base'', ''User'',
      ''Agroquimico'', ''GastoAgroquimico'', ''get_db'', ''AgroquimicoCreate'',
      ''AplicarAgroquimicoRequest'', ''obtener_tipo_cambio'', ''create_agroquimico'',
      ''get_agroquimicos'', ''aplicar_agroquimico'', ''get_gastos'', ''get_costo_total'']"

text \<open>
  \<^verbatim>\<open>query(func.sum(column)).scalar()\<close> is \<open>None\<close> on an empty table; \<^verbatim>\<open>v or 0\<close> is 0 for
  \<open>None\<close> and for a zero sum.
\<close>

definition sum_scalar :: "real list \<Rightarrow> real option" where
  "sum_scalar xs = (if xs = [] then None else Some (sum_list xs))"

definition or_0 :: "real option \<Rightarrow> real" where
  "or_0 v = (case v of None \<Rightarrow> 0 | Some s \<Rightarrow> if s = 0 then 0 else s)"

record costo_total_report =
  costo_total_ars :: real
  costo_total_usd :: real

definition get_costo_total_in ::
  "string list \<Rightarrow> ruralis_db \<Rightarrow> costo_total_report outcome \<times> ruralis_db" where
  "get_costo_total_in globals db =
     (if ''func'' \<in> set globals
      then
        let total_ars = or_0 (sum_scalar (map rg_costo_total_ars (r_gastos db)));
            total_usd = or_0 (sum_scalar (map rg_costo_total_usd (r_gastos db)))
        in (Returns \<lparr>costo_total_ars = total_ars, costo_total_usd = total_usd\<rparr>, db)
      else (Raises NameError, db))"

definition get_costo_total :: "ruralis_db \<Rightarrow> costo_total_report outcome \<times> ruralis_db" where
  "get_costo_total db = get_costo_total_in ruralis_globals db"

subsection \<open>\<^verbatim>\<open>src/ruralis/main.py\<close>: sequences of requests\<close>

datatype ruralis_op =
    R_create_agroquimico ruralis_agroquimico_create
  | R_get_agroquimicos
  | R_aplicar_agroquimico int ruralis_request http_exchange string
  | R_get_gastos
  | R_get_costo_total

fun ruralis_step :: "ruralis_op \<Rightarrow> ruralis_db \<Rightarrow> ruralis_db" where
  "ruralis_step (R_create_agroquimico req) db = snd (ruralis_create_agroquimico req db)"
| "ruralis_step R_get_agroquimicos db = snd (ruralis_get_agroquimicos db)"
| "ruralis_step (R_aplicar_agroquimico i req http now) db =
     snd (ruralis_aplicar_agroquimico i req http now db)"
| "ruralis_step R_get_gastos db = snd (ruralis_get_gastos db)"
| "ruralis_step R_get_costo_total db = snd (get_costo_total db)"

definition ruralis_run :: "ruralis_op list \<Rightarrow> ruralis_db \<Rightarrow> ruralis_db" where
  "ruralis_run ops db = fold ruralis_step ops db"

fun ruralis_op_ok :: "ruralis_op \<Rightarrow> bool" where
  "ruralis_op_ok (R_create_agroquimico req) = (0 \<le> rc_cantidad req)"
| "ruralis_op_ok (R_aplicar_agroquimico i req http now) = (0 < dosis req \<and> 0 < r_hectareas req)"
| "ruralis_op_ok _ = True"

definition ruralis_stock_ok :: "ruralis_db \<Rightarrow> bool" where
  "ruralis_stock_ok db = list_all (\<lambda>a. 0 \<le> r_cantidad a) (r_agroquimicos db)"

subsection \<open>Scenarios\<close>

text \<open>
  The store of the specification's scenarios: one agrochemical, with the given stock, unit
  price and (in \<^verbatim>\<open>src/ruralis/main.py\<close>) currency, and no expense yet. \<open>rate_reply v\<close> is
  the rate service answering \<^verbatim>\<open>{"rates": {"USD": v}}\<close>.
\<close>

definition glifosato :: "real \<Rightarrow> real \<Rightarrow> string \<Rightarrow> ruralis_agroquimico" where
  "glifosato q p m =
     \<lparr>r_id = 1, r_nombre = ''Glifosato'', r_cantidad = q, r_unidad = ''L'',
      r_precio_unitario = p, r_moneda = m\<rparr>"

definition glifosato_db :: "real \<Rightarrow> real \<Rightarrow> string \<Rightarrow> ruralis_db" where
  "glifosato_db q p m = \<lparr>r_agroquimicos = [glifosato q p m], r_gastos = []\<rparr>"

definition main_glifosato :: "real \<Rightarrow> real \<Rightarrow> main_agroquimico" where
  "main_glifosato q p =
     \<lparr>m_id = 1, m_nombre = ''Glifosato'', m_cantidad = q, m_unidad = ''L'',
      m_precio_unitario = p\<rparr>"

definition main_glifosato_db :: "real \<Rightarrow> real \<Rightarrow> main_db" where
  "main_glifosato_db q p = \<lparr>users = [], m_agroquimicos = [main_glifosato q p], m_gastos = []\<rparr>"

definition rate_reply :: "pyval \<Rightarrow> http_exchange" where
  "rate_reply v = Body_json (PDict [(''rates'', PDict [(''USD'', v)])])"

text \<open>
  Two sessions on a store holding 5 units of one agrochemical: a second agrochemical is
  created with 30 units, the list is read, 20 units of the first are asked for (more than
  its stock) and then 10 of the second; the first session ends by deleting the first
  agrochemical.
\<close>

definition main_session :: "main_op list" where
  "main_session =
     [Create_agroquimico \<lparr>mc_nombre = ''Urea'', mc_cantidad = 30, mc_unidad = ''kg'',
                          mc_precio_unitario = 12\<rparr>,
      Get_agroquimicos,
      Aplicar_agroquimico 1 \<lparr>dosis_por_ha = 2, m_hectareas = 10\<rparr> ''2025-01-01 10:00:00'',
      Aplicar_agroquimico 2 \<lparr>dosis_por_ha = 1, m_hectareas = 10\<rparr> ''2025-01-01 10:05:00'',
      Delete_agroquimico 1]"

definition ruralis_session :: "ruralis_op list" where
  "ruralis_session =
     [R_create_agroquimico \<lparr>rc_nombre = ''Urea'', rc_cantidad = 30, rc_unidad = ''kg'',
                            rc_precio_unitario = 12, rc_moneda = None\<rparr>,
      R_get_agroquimicos,
      R_aplicar_agroquimico 1 \<lparr>dosis = 2, r_hectareas = 10\<rparr> Request_fails ''2025-01-01 10:00:00'',
      R_aplicar_agroquimico 2 \<lparr>dosis = 1, r_hectareas = 10\<rparr> Request_fails ''2025-01-01 10:05:00'']"

section \<open>Properties\<close>

subsection \<open>Looking a row up by its key\<close>


lemma find_Some_key: "find (\<lambda>x. key x = i) xs = Some a \<Longrightarrow> key a = i \<and> a \<in> set xs"
  by (induction xs) (auto split: if_splits)

subsection \<open>Insufficient stock\<close>

text \<open>
  C1. An apply request on a stored agrochemical whose \<open>dosis \<times> hectareas\<close> is strictly greater
  than the stored quantity returns the body \<^verbatim>\<open>{"error": "Stock insuficiente"}\<close> and leaves the
  whole store as it was: the agrochemical's quantity and the expense table are unchanged. This
  holds in both versions of the application, whatever the rate service does.
\<close>

theorem apply_insufficient_stock:
  "(find (\<lambda>a. r_id a = i) (r_agroquimicos db) = Some a \<longrightarrow>
      r_cantidad a < dosis req * r_hectareas req \<longrightarrow>
      ruralis_aplicar_agroquimico i req http now db = (Returns_error Stock_insuficiente, db))
   \<and> (find (\<lambda>b. m_id b = j) (m_agroquimicos mdb) = Some b \<longrightarrow>
      m_cantidad b < dosis_por_ha mreq * m_hectareas mreq \<longrightarrow>
      main_aplicar_agroquimico j mreq mnow mdb = (Returns_error Stock_insuficiente, mdb))"
  by (simp add: ruralis_aplicar_agroquimico_def main_aplicar_agroquimico_def)

theorem apply_insufficient_stock_witness:
  "find (\<lambda>a. r_id a = 1) (r_agroquimicos (glifosato_db 5 50 ''ARS'')) = Some (glifosato 5 50 ''ARS'')
   \<and> r_cantidad (glifosato 5 50 ''ARS'') < 2 * 10
   \<and> ruralis_aplicar_agroquimico 1 \<lparr>dosis = 2, r_hectareas = 10\<rparr> Request_fails ''2025-01-01 10:00:00''
        (glifosato_db 5 50 ''ARS'') = (Returns_error Stock_insuficiente, glifosato_db 5 50 ''ARS'')
   \<and> find (\<lambda>b. m_id b = 1) (m_agroquimicos (main_glifosato_db 5 50)) = Some (main_glifosato 5 50)
   \<and> m_cantidad (main_glifosato 5 50) < 2 * 10
   \<and> main_aplicar_agroquimico 1 \<lparr>dosis_por_ha = 2, m_hectareas = 10\<rparr> ''2025-01-01 10:00:00''
        (main_glifosato_db 5 50) = (Returns_error Stock_insuficiente, main_glifosato_db 5 50)"
  using apply_insufficient_stock
    [of 1 "glifosato_db 5 50 ''ARS''" "glifosato 5 50 ''ARS''" "\<lparr>dosis = 2, r_hectareas = 10\<rparr>"
        Request_fails "''2025-01-01 10:00:00''"
        1 "main_glifosato_db 5 50" "main_glifosato 5 50"
        "\<lparr>dosis_por_ha = 2, m_hectareas = 10\<rparr>" "''2025-01-01 10:00:00''"]
  by (simp add: glifosato_def glifosato_db_def main_glifosato_def main_glifosato_db_def)

subsection \<open>What an application does\<close>

text \<open>
  The two outcomes of \<open>aplicar_agroquimico\<close> that matter below, in full: when the row is
  found, the stock suffices and the cost in USD is defined, the application is registered with
  the body and the store shown; and a registered application comes from such a state.
\<close>

lemma ruralis_aplicar_registered:
  assumes "find (\<lambda>a. r_id a = i) (r_agroquimicos db) = Some a"
    and "\<not> r_cantidad a < dosis req * r_hectareas req"
    and "(if r_moneda a = ''ARS''
          then float_mul (r_precio_unitario a * (dosis req * r_hectareas req))
                 (obtener_tipo_cambio http)
          else Inr (r_precio_unitario a * (dosis req * r_hectareas req))) = Inr usd"
  shows "ruralis_aplicar_agroquimico i req http now db =
     (Returns
        \<lparr>ra_id = i, ra_nombre = r_nombre a,
         ra_stock_restante = r_cantidad a - dosis req * r_hectareas req,
         ra_gasto_id = next_id (map rg_id (r_gastos db)),
         ra_cantidad_aplicada = dosis req * r_hectareas req,
         ra_costo_total_ars = r_precio_unitario a * (dosis req * r_hectareas req),
         ra_costo_total_usd = usd, ra_fecha = now\<rparr>,
      db\<lparr>r_agroquimicos :=
            map (\<lambda>x. if r_id x = i
                      then x\<lparr>r_cantidad := r_cantidad a - dosis req * r_hectareas req\<rparr>
                      else x) (r_agroquimicos db),
          r_gastos := r_gastos db @
            [\<lparr>rg_id = next_id (map rg_id (r_gastos db)), rg_agroquimico_id = i,
              rg_cantidad_aplicada = dosis req * r_hectareas req,
              rg_costo_total_ars = r_precio_unitario a * (dosis req * r_hectareas req),
              rg_costo_total_usd = usd, rg_fecha = now\<rparr>]\<rparr>)"
proof -
  from assms(1) have "r_id a = i" using find_Some_key [of r_id i] by blast
  with assms show ?thesis
    by (simp add: ruralis_aplicar_agroquimico_def Let_def)
qed

lemma ruralis_aplicar_ReturnsD:
  assumes "fst (ruralis_aplicar_agroquimico i req http now db) = Returns ap"
  shows "\<exists>a usd. find (\<lambda>a. r_id a = i) (r_agroquimicos db) = Some a
           \<and> \<not> r_cantidad a < dosis req * r_hectareas req
           \<and> (if r_moneda a = ''ARS''
                then float_mul (r_precio_unitario a * (dosis req * r_hectareas req))
                       (obtener_tipo_cambio http)
                else Inr (r_precio_unitario a * (dosis req * r_hectareas req))) = Inr usd"
  using assms
  by (auto simp: ruralis_aplicar_agroquimico_def Let_def
      split: option.splits if_splits sum.splits)

lemma main_aplicar_registered:
  assumes "find (\<lambda>b. m_id b = j) (m_agroquimicos db) = Some b"
    and "\<not> m_cantidad b < dosis_por_ha req * m_hectareas req"
  shows "main_aplicar_agroquimico j req now db =
     (Returns
        \<lparr>ma_id = j, ma_nombre = m_nombre b,
         ma_stock_restante = m_cantidad b - dosis_por_ha req * m_hectareas req,
         ma_gasto_id = next_id (map mg_id (m_gastos db)),
         ma_cantidad_aplicada = dosis_por_ha req * m_hectareas req,
         ma_costo_total = m_precio_unitario b * (dosis_por_ha req * m_hectareas req / 1000),
         ma_fecha = now\<rparr>,
      db\<lparr>m_agroquimicos :=
            map (\<lambda>x. if m_id x = j
                      then x\<lparr>m_cantidad := m_cantidad b - dosis_por_ha req * m_hectareas req\<rparr>
                      else x) (m_agroquimicos db),
          m_gastos := m_gastos db @
            [\<lparr>mg_id = next_id (map mg_id (m_gastos db)), mg_agroquimico_id = j,
              mg_cantidad_aplicada = dosis_por_ha req * m_hectareas req,
              mg_costo_total = m_precio_unitario b * (dosis_por_ha req * m_hectareas req / 1000),
              mg_fecha = now\<rparr>]\<rparr>)"
proof -
  from assms(1) have "m_id b = j" using find_Some_key [of m_id j] by blast
  with assms show ?thesis
    by (simp add: main_aplicar_agroquimico_def Let_def)
qed

lemma main_aplicar_ReturnsD:
  assumes "fst (main_aplicar_agroquimico j req now db) = Returns ap"
  shows "\<exists>b. find (\<lambda>b. m_id b = j) (m_agroquimicos db) = Some b
           \<and> \<not> m_cantidad b < dosis_por_ha req * m_hectareas req"
  using assms
  by (auto simp: main_aplicar_agroquimico_def Let_def split: option.splits if_splits)

lemma float_mul_Inr:
  assumes "float_mul x v = Inr y"
  shows "\<exists>r. py_number v = Some r \<and> y = x * r"
  using assms by (cases v) (auto simp: int_to_float_def split: if_splits)

lemma float_mul_huge_int: "float_mul 1000 (PInt (10 ^ 400)) = Inl OverflowError"
  by (simp add: int_to_float_def)



subsection \<open>A valid dose\<close>

text \<open>
  C2. The claim is that every apply request on a stored agrochemical with
  \<open>dosis \<times> hectareas\<close> at most the stored quantity succeeds, decreases the stock by that
  product and creates exactly one expense row. The code of \<^verbatim>\<open>src/ruralis/main.py\<close> does not:
  with 100 in stock, a dose of 2 on 10 hectares and a rate service answering
  \<^verbatim>\<open>{"rates": {"USD": null}}\<close>, the lookup returns \<open>None\<close> instead of its fallback, the product
  \<^verbatim>\<open>costo_total_ars * tipo_cambio\<close> raises \<^verbatim>\<open>TypeError\<close>, and nothing is stored.
\<close>

theorem apply_valid_dose_null_rate:
  "find (\<lambda>a. r_id a = 1) (r_agroquimicos (glifosato_db 100 50 ''ARS''))
     = Some (glifosato 100 50 ''ARS'')
   \<and> dosis \<lparr>dosis = 2, r_hectareas = 10\<rparr> * r_hectareas \<lparr>dosis = 2, r_hectareas = 10\<rparr>
       \<le> r_cantidad (glifosato 100 50 ''ARS'')
   \<and> ruralis_aplicar_agroquimico 1 \<lparr>dosis = 2, r_hectareas = 10\<rparr> (rate_reply PNone)
        ''2025-01-01 10:00:00'' (glifosato_db 100 50 ''ARS'')
      = (Raises TypeError, glifosato_db 100 50 ''ARS'')"
  by (simp add: glifosato_def glifosato_db_def rate_reply_def ruralis_aplicar_agroquimico_def
      obtener_tipo_cambio_def obtener_tipo_cambio_try_def)

subsection \<open>The cost of an application\<close>

text \<open>
  C3, as stated for every apply operation, fails in \<^verbatim>\<open>src/main.py\<close>: with a unit price of 50,
  a dose of 2 and 10 hectares, the cost stored is 1, not \<open>50 \<times> 20 = 1000\<close>, because that
  version divides the quantity by 1000.
\<close>

theorem apply_cost_counterexample:
  "fst (main_aplicar_agroquimico 1 \<lparr>dosis_por_ha = 2, m_hectareas = 10\<rparr> ''2025-01-01 10:00:00''
          (main_glifosato_db 100 50))
     = Returns \<lparr>ma_id = 1, ma_nombre = ''Glifosato'', ma_stock_restante = 80, ma_gasto_id = 1,
                ma_cantidad_aplicada = 20, ma_costo_total = 1, ma_fecha = ''2025-01-01 10:00:00''\<rparr>
   \<and> map mg_costo_total
        (m_gastos (snd (main_aplicar_agroquimico 1 \<lparr>dosis_por_ha = 2, m_hectareas = 10\<rparr>
           ''2025-01-01 10:00:00'' (main_glifosato_db 100 50)))) = [1]
   \<and> m_precio_unitario (main_glifosato 100 50) * (2 * 10) = 1000"
  by (simp add: main_glifosato_def main_glifosato_db_def main_aplicar_agroquimico_def
      next_id_def)

text \<open>
  C3, amended. For every successful apply operation of \<^verbatim>\<open>src/ruralis/main.py\<close>, the
  \<open>costo_total_ars\<close> of the new expense row (and of the body returned) is
  \<open>precio_unitario \<times> (dosis \<times> hectareas)\<close>; for every successful apply operation of
  \<^verbatim>\<open>src/main.py\<close>, the single \<open>costo_total\<close> is
  \<open>precio_unitario \<times> (dosis_por_ha \<times> hectareas / 1000)\<close>.
\<close>

theorem apply_cost:
  "(fst (ruralis_aplicar_agroquimico i req http now db) = Returns ap \<longrightarrow>
      (\<exists>a g. find (\<lambda>a. r_id a = i) (r_agroquimicos db) = Some a
         \<and> r_gastos (snd (ruralis_aplicar_agroquimico i req http now db)) = r_gastos db @ [g]
         \<and> rg_costo_total_ars g = r_precio_unitario a * (dosis req * r_hectareas req)
         \<and> ra_costo_total_ars ap = r_precio_unitario a * (dosis req * r_hectareas req)))
   \<and> (fst (main_aplicar_agroquimico j mreq mnow mdb) = Returns mp \<longrightarrow>
      (\<exists>b g. find (\<lambda>b. m_id b = j) (m_agroquimicos mdb) = Some b
         \<and> m_gastos (snd (main_aplicar_agroquimico j mreq mnow mdb)) = m_gastos mdb @ [g]
         \<and> mg_costo_total g = m_precio_unitario b * (dosis_por_ha mreq * m_hectareas mreq / 1000)
         \<and> ma_costo_total mp = m_precio_unitario b * (dosis_por_ha mreq * m_hectareas mreq / 1000)))"
proof (intro conjI impI)
  assume ok: "fst (ruralis_aplicar_agroquimico i req http now db) = Returns ap"
  from ruralis_aplicar_ReturnsD [OF ok] obtain a usd where
    f: "find (\<lambda>a. r_id a = i) (r_agroquimicos db) = Some a"
    and le: "\<not> r_cantidad a < dosis req * r_hectareas req"
    and usd: "(if r_moneda a = ''ARS''
        then float_mul (r_precio_unitario a * (dosis req * r_hectareas req))
               (obtener_tipo_cambio http)
        else Inr (r_precio_unitario a * (dosis req * r_hectareas req))) = Inr usd"
    by blast
  from ruralis_aplicar_registered [OF f le usd, of now] ok f
  show "\<exists>a g. find (\<lambda>a. r_id a = i) (r_agroquimicos db) = Some a
         \<and> r_gastos (snd (ruralis_aplicar_agroquimico i req http now db)) = r_gastos db @ [g]
         \<and> rg_costo_total_ars g = r_precio_unitario a * (dosis req * r_hectareas req)
         \<and> ra_costo_total_ars ap = r_precio_unitario a * (dosis req * r_hectareas req)"
    by auto
next
  assume ok: "fst (main_aplicar_agroquimico j mreq mnow mdb) = Returns mp"
  from main_aplicar_ReturnsD [OF ok] obtain b where
    f: "find (\<lambda>b. m_id b = j) (m_agroquimicos mdb) = Some b"
    and le: "\<not> m_cantidad b < dosis_por_ha mreq * m_hectareas mreq"
    by blast
  from main_aplicar_registered [OF f le, of mnow] ok f
  show "\<exists>b g. find (\<lambda>b. m_id b = j) (m_agroquimicos mdb) = Some b
         \<and> m_gastos (snd (main_aplicar_agroquimico j mreq mnow mdb)) = m_gastos mdb @ [g]
         \<and> mg_costo_total g = m_precio_unitario b * (dosis_por_ha mreq * m_hectareas mreq / 1000)
         \<and> ma_costo_total mp = m_precio_unitario b * (dosis_por_ha mreq * m_hectareas mreq / 1000)"
    by auto
qed

theorem apply_cost_witness:
  "fst (ruralis_aplicar_agroquimico 1 \<lparr>dosis = 2, r_hectareas = 10\<rparr> (rate_reply (PFloat 0.001))
          ''2025-01-01 10:00:00'' (glifosato_db 100 50 ''ARS''))
     = Returns \<lparr>ra_id = 1, ra_nombre = ''Glifosato'', ra_stock_restante = 80, ra_gasto_id = 1,
                ra_cantidad_aplicada = 20, ra_costo_total_ars = 1000, ra_costo_total_usd = 1,
                ra_fecha = ''2025-01-01 10:00:00''\<rparr>
   \<and> map rg_costo_total_ars
        (r_gastos (snd (ruralis_aplicar_agroquimico 1 \<lparr>dosis = 2, r_hectareas = 10\<rparr>
           (rate_reply (PFloat 0.001)) ''2025-01-01 10:00:00'' (glifosato_db 100 50 ''ARS'')))) = [1000]
   \<and> fst (main_aplicar_agroquimico 1 \<lparr>dosis_por_ha = 2, m_hectareas = 10\<rparr> ''2025-01-01 10:00:00''
          (main_glifosato_db 100 50))
     = Returns \<lparr>ma_id = 1, ma_nombre = ''Glifosato'', ma_stock_restante = 80, ma_gasto_id = 1,
                ma_cantidad_aplicada = 20, ma_costo_total = 1, ma_fecha = ''2025-01-01 10:00:00''\<rparr>
   \<and> map mg_costo_total
        (m_gastos (snd (main_aplicar_agroquimico 1 \<lparr>dosis_por_ha = 2, m_hectareas = 10\<rparr>
           ''2025-01-01 10:00:00'' (main_glifosato_db 100 50)))) = [1]"
proof -
  have r: "fst (ruralis_aplicar_agroquimico 1 \<lparr>dosis = 2, r_hectareas = 10\<rparr> (rate_reply (PFloat 0.001))
          ''2025-01-01 10:00:00'' (glifosato_db 100 50 ''ARS''))
     = Returns \<lparr>ra_id = 1, ra_nombre = ''Glifosato'', ra_stock_restante = 80, ra_gasto_id = 1,
                ra_cantidad_aplicada = 20, ra_costo_total_ars = 1000, ra_costo_total_usd = 1,
                ra_fecha = ''2025-01-01 10:00:00''\<rparr>"
    by (simp add: glifosato_def glifosato_db_def main_glifosato_def main_glifosato_db_def
        rate_reply_def ruralis_aplicar_agroquimico_def next_id_def
        obtener_tipo_cambio_def obtener_tipo_cambio_try_def)
  have m: "fst (main_aplicar_agroquimico 1 \<lparr>dosis_por_ha = 2, m_hectareas = 10\<rparr> ''2025-01-01 10:00:00''
          (main_glifosato_db 100 50))
     = Returns \<lparr>ma_id = 1, ma_nombre = ''Glifosato'', ma_stock_restante = 80, ma_gasto_id = 1,
                ma_cantidad_aplicada = 20, ma_costo_total = 1, ma_fecha = ''2025-01-01 10:00:00''\<rparr>"
    by (simp add: glifosato_def glifosato_db_def main_glifosato_def main_glifosato_db_def
        rate_reply_def main_aplicar_agroquimico_def next_id_def)
  from apply_cost
    [of 1 "\<lparr>dosis = 2, r_hectareas = 10\<rparr>" "rate_reply (PFloat 0.001)" "''2025-01-01 10:00:00''"
        "glifosato_db 100 50 ''ARS''"
        "\<lparr>ra_id = 1, ra_nombre = ''Glifosato'', ra_stock_restante = 80, ra_gasto_id = 1,
          ra_cantidad_aplicada = 20, ra_costo_total_ars = 1000, ra_costo_total_usd = 1,
          ra_fecha = ''2025-01-01 10:00:00''\<rparr>"
        1 "\<lparr>dosis_por_ha = 2, m_hectareas = 10\<rparr>"
        "''2025-01-01 10:00:00''" "main_glifosato_db 100 50"
        "\<lparr>ma_id = 1, ma_nombre = ''Glifosato'', ma_stock_restante = 80, ma_gasto_id = 1,
          ma_cantidad_aplicada = 20, ma_costo_total = 1, ma_fecha = ''2025-01-01 10:00:00''\<rparr>"] r m
  show ?thesis
    by (auto simp: glifosato_def glifosato_db_def main_glifosato_def main_glifosato_db_def
        rate_reply_def)
qed

subsection \<open>The cost report\<close>

text \<open>
  With the name \<^verbatim>\<open>func\<close> bound, the report would be the two sums over the expense table,
  and zero for both on an empty table.
\<close>

lemma or_0_sum_scalar: "or_0 (sum_scalar xs) = sum_list xs"
  by (simp add: or_0_def sum_scalar_def)

lemma get_costo_total_in_sums:
  assumes "''func'' \<in> set globals"
  shows "get_costo_total_in globals db =
     (Returns \<lparr>costo_total_ars = sum_list (map rg_costo_total_ars (r_gastos db)),
               costo_total_usd = sum_list (map rg_costo_total_usd (r_gastos db))\<rparr>, db)"
  using assms by (simp add: get_costo_total_in_def or_0_sum_scalar)

text \<open>
  C4. The claim is that the report returns the sums of \<open>costo_total_ars\<close> and of
  \<open>costo_total_usd\<close> over the expense rows, and zero totals on an empty table. The code does
  not: \<^verbatim>\<open>func\<close> is never imported in \<^verbatim>\<open>src/ruralis/main.py\<close>, so every call of
  \<^verbatim>\<open>get_costo_total\<close> raises \<^verbatim>\<open>NameError\<close>, on every store, and returns no totals.
\<close>

theorem get_costo_total_raises: "get_costo_total db = (Raises NameError, db)"
  by (simp add: get_costo_total_def get_costo_total_in_def ruralis_globals_def)

theorem get_costo_total_raises_witness:
  "get_costo_total \<lparr>r_agroquimicos = [], r_gastos = []\<rparr>
     = (Raises NameError, \<lparr>r_agroquimicos = [], r_gastos = []\<rparr>)"
  using get_costo_total_raises [of "\<lparr>r_agroquimicos = [], r_gastos = []\<rparr>"] .

subsection \<open>The cost in USD\<close>

text \<open>
  C5. For every successful apply operation of \<^verbatim>\<open>src/ruralis/main.py\<close>: if the agrochemical's
  currency is \<^verbatim>\<open>"ARS"\<close>, the rate lookup returned a number and the new expense row's
  \<open>costo_total_usd\<close> is its \<open>costo_total_ars\<close> multiplied by that number; for any other
  currency \<open>costo_total_usd\<close> equals \<open>costo_total_ars\<close>. The body returned carries the same
  two costs.
\<close>

theorem apply_cost_usd:
  "fst (ruralis_aplicar_agroquimico i req http now db) = Returns ap \<longrightarrow>
   find (\<lambda>a. r_id a = i) (r_agroquimicos db) = Some a \<longrightarrow>
     (\<exists>g. r_gastos (snd (ruralis_aplicar_agroquimico i req http now db)) = r_gastos db @ [g]
        \<and> ra_costo_total_ars ap = rg_costo_total_ars g
        \<and> ra_costo_total_usd ap = rg_costo_total_usd g
        \<and> (r_moneda a = ''ARS'' \<longrightarrow>
             (\<exists>rate. py_number (obtener_tipo_cambio http) = Some rate
                \<and> rg_costo_total_usd g = rg_costo_total_ars g * rate))
        \<and> (r_moneda a \<noteq> ''ARS'' \<longrightarrow> rg_costo_total_usd g = rg_costo_total_ars g))"
proof (intro impI)
  assume ok: "fst (ruralis_aplicar_agroquimico i req http now db) = Returns ap"
    and f: "find (\<lambda>a. r_id a = i) (r_agroquimicos db) = Some a"
  from ruralis_aplicar_ReturnsD [OF ok] f obtain usd where
    le: "\<not> r_cantidad a < dosis req * r_hectareas req"
    and usd: "(if r_moneda a = ''ARS''
        then float_mul (r_precio_unitario a * (dosis req * r_hectareas req))
               (obtener_tipo_cambio http)
        else Inr (r_precio_unitario a * (dosis req * r_hectareas req))) = Inr usd"
    by auto
  have ars: "r_moneda a = ''ARS'' \<longrightarrow>
      (\<exists>rate. py_number (obtener_tipo_cambio http) = Some rate
         \<and> usd = r_precio_unitario a * (dosis req * r_hectareas req) * rate)"
    using usd float_mul_Inr [of _ "obtener_tipo_cambio http" usd] by auto
  have other: "r_moneda a \<noteq> ''ARS'' \<longrightarrow> usd = r_precio_unitario a * (dosis req * r_hectareas req)"
    using usd by auto
  from ruralis_aplicar_registered [OF f le usd, of now] ok ars other
  show "\<exists>g. r_gastos (snd (ruralis_aplicar_agroquimico i req http now db)) = r_gastos db @ [g]
        \<and> ra_costo_total_ars ap = rg_costo_total_ars g
        \<and> ra_costo_total_usd ap = rg_costo_total_usd g
        \<and> (r_moneda a = ''ARS'' \<longrightarrow>
             (\<exists>rate. py_number (obtener_tipo_cambio http) = Some rate
                \<and> rg_costo_total_usd g = rg_costo_total_ars g * rate))
        \<and> (r_moneda a \<noteq> ''ARS'' \<longrightarrow> rg_costo_total_usd g = rg_costo_total_ars g)"
    by auto
qed

theorem apply_cost_usd_witness:
  "fst (ruralis_aplicar_agroquimico 1 \<lparr>dosis = 2, r_hectareas = 10\<rparr> (rate_reply (PFloat 0.001))
          ''2025-01-01 10:00:00'' (glifosato_db 100 50 ''ARS''))
     = Returns \<lparr>ra_id = 1, ra_nombre = ''Glifosato'', ra_stock_restante = 80, ra_gasto_id = 1,
                ra_cantidad_aplicada = 20, ra_costo_total_ars = 1000, ra_costo_total_usd = 1,
                ra_fecha = ''2025-01-01 10:00:00''\<rparr>
   \<and> find (\<lambda>a. r_id a = 1) (r_agroquimicos (glifosato_db 100 50 ''ARS'')) = Some (glifosato 100 50 ''ARS'')
   \<and> py_number (obtener_tipo_cambio (rate_reply (PFloat 0.001))) = Some 0.001
   \<and> map rg_costo_total_usd
        (r_gastos (snd (ruralis_aplicar_agroquimico 1 \<lparr>dosis = 2, r_hectareas = 10\<rparr>
           (rate_reply (PFloat 0.001)) ''2025-01-01 10:00:00'' (glifosato_db 100 50 ''ARS'')))) = [1000 * 0.001]
   \<and> fst (ruralis_aplicar_agroquimico 1 \<lparr>dosis = 2, r_hectareas = 10\<rparr> (rate_reply (PFloat 0.001))
          ''2025-01-01 10:00:00'' (glifosato_db 100 50 ''USD''))
     = Returns \<lparr>ra_id = 1, ra_nombre = ''Glifosato'', ra_stock_restante = 80, ra_gasto_id = 1,
                ra_cantidad_aplicada = 20, ra_costo_total_ars = 1000, ra_costo_total_usd = 1000,
                ra_fecha = ''2025-01-01 10:00:00''\<rparr>
   \<and> find (\<lambda>a. r_id a = 1) (r_agroquimicos (glifosato_db 100 50 ''USD'')) = Some (glifosato 100 50 ''USD'')
   \<and> map rg_costo_total_usd
        (r_gastos (snd (ruralis_aplicar_agroquimico 1 \<lparr>dosis = 2, r_hectareas = 10\<rparr>
           (rate_reply (PFloat 0.001)) ''2025-01-01 10:00:00'' (glifosato_db 100 50 ''USD'')))) = [1000]"
proof -
  have ars: "fst (ruralis_aplicar_agroquimico 1 \<lparr>dosis = 2, r_hectareas = 10\<rparr> (rate_reply (PFloat 0.001))
          ''2025-01-01 10:00:00'' (glifosato_db 100 50 ''ARS''))
     = Returns \<lparr>ra_id = 1, ra_nombre = ''Glifosato'', ra_stock_restante = 80, ra_gasto_id = 1,
                ra_cantidad_aplicada = 20, ra_costo_total_ars = 1000, ra_costo_total_usd = 1,
                ra_fecha = ''2025-01-01 10:00:00''\<rparr>"
    by (simp add: glifosato_def glifosato_db_def rate_reply_def ruralis_aplicar_agroquimico_def
        next_id_def
        obtener_tipo_cambio_def obtener_tipo_cambio_try_def)
  have usd: "fst (ruralis_aplicar_agroquimico 1 \<lparr>dosis = 2, r_hectareas = 10\<rparr> (rate_reply (PFloat 0.001))
          ''2025-01-01 10:00:00'' (glifosato_db 100 50 ''USD''))
     = Returns \<lparr>ra_id = 1, ra_nombre = ''Glifosato'', ra_stock_restante = 80, ra_gasto_id = 1,
                ra_cantidad_aplicada = 20, ra_costo_total_ars = 1000, ra_costo_total_usd = 1000,
                ra_fecha = ''2025-01-01 10:00:00''\<rparr>"
    by (simp add: glifosato_def glifosato_db_def rate_reply_def ruralis_aplicar_agroquimico_def
        next_id_def)
  have fa: "find (\<lambda>a. r_id a = 1) (r_agroquimicos (glifosato_db 100 50 ''ARS'')) = Some (glifosato 100 50 ''ARS'')"
    and fu: "find (\<lambda>a. r_id a = 1) (r_agroquimicos (glifosato_db 100 50 ''USD'')) = Some (glifosato 100 50 ''USD'')"
    by (simp_all add: glifosato_def glifosato_db_def rate_reply_def)
  have rate: "py_number (obtener_tipo_cambio (rate_reply (PFloat 0.001))) = Some 0.001"
    by (simp add: glifosato_def glifosato_db_def rate_reply_def obtener_tipo_cambio_def
        obtener_tipo_cambio_try_def)
  from apply_cost_usd [THEN mp, OF ars, THEN mp, OF fa] rate
  have 1: "map rg_costo_total_usd
        (r_gastos (snd (ruralis_aplicar_agroquimico 1 \<lparr>dosis = 2, r_hectareas = 10\<rparr>
           (rate_reply (PFloat 0.001)) ''2025-01-01 10:00:00'' (glifosato_db 100 50 ''ARS'')))) = [1000 * 0.001]"
    by (auto simp: glifosato_def glifosato_db_def rate_reply_def)
  from apply_cost_usd [THEN mp, OF usd, THEN mp, OF fu]
  have 2: "map rg_costo_total_usd
        (r_gastos (snd (ruralis_aplicar_agroquimico 1 \<lparr>dosis = 2, r_hectareas = 10\<rparr>
           (rate_reply (PFloat 0.001)) ''2025-01-01 10:00:00'' (glifosato_db 100 50 ''USD'')))) = [1000]"
    by (auto simp: glifosato_def glifosato_db_def rate_reply_def)
  from ars usd fa fu rate 1 2 show ?thesis by blast
qed

subsection \<open>Deleting by id\<close>

text \<open>
  C7. Deleting a user or an agrochemical whose id is not stored returns a body with the
  not-found error, without raising, and leaves the store unchanged; when the id is stored, the
  rows with that id are removed, every other row is kept, and the confirmation is returned.
\<close>

theorem delete_by_id:
  "(user_id \<notin> u_id ` set (users db) \<longrightarrow>
      delete_user user_id db = (Returns_error Usuario_no_encontrado, db))
   \<and> (user_id \<in> u_id ` set (users db) \<longrightarrow>
      delete_user user_id db =
        (Returns Usuario_eliminado, db\<lparr>users := filter (\<lambda>u. u_id u \<noteq> user_id) (users db)\<rparr>)
      \<and> user_id \<notin> u_id ` set (users (snd (delete_user user_id db))))
   \<and> (agroquimico_id \<notin> m_id ` set (m_agroquimicos db) \<longrightarrow>
      delete_agroquimico agroquimico_id db = (Returns_error Agroquimico_no_encontrado, db))
   \<and> (agroquimico_id \<in> m_id ` set (m_agroquimicos db) \<longrightarrow>
      delete_agroquimico agroquimico_id db =
        (Returns Agroquimico_eliminado,
         db\<lparr>m_agroquimicos := filter (\<lambda>a. m_id a \<noteq> agroquimico_id) (m_agroquimicos db)\<rparr>)
      \<and> agroquimico_id \<notin> m_id ` set (m_agroquimicos (snd (delete_agroquimico agroquimico_id db))))"
proof -
  have absent: "find (\<lambda>x. key x = k) xs = None" if "k \<notin> key ` set xs" for key :: "'a \<Rightarrow> int" and k xs
    using that by (auto simp: find_None_iff)
  have present: "\<exists>x. find (\<lambda>x. key x = k) xs = Some x \<and> key x = k"
    if "k \<in> key ` set xs" for key :: "'a \<Rightarrow> int" and k xs
  proof (cases "find (\<lambda>x. key x = k) xs")
    case None
    with that show ?thesis by (auto simp: find_None_iff)
  next
    case (Some x)
    with find_Some_key [of key k xs x] show ?thesis by simp
  qed
  show ?thesis
  proof (intro conjI impI)
    assume "user_id \<notin> u_id ` set (users db)"
    from absent [OF this] show "delete_user user_id db = (Returns_error Usuario_no_encontrado, db)"
      by (simp add: delete_user_def)
  next
    assume "user_id \<in> u_id ` set (users db)"
    from present [OF this] obtain u where "find (\<lambda>u. u_id u = user_id) (users db) = Some u" "u_id u = user_id"
      by blast
    then show del: "delete_user user_id db =
        (Returns Usuario_eliminado, db\<lparr>users := filter (\<lambda>u. u_id u \<noteq> user_id) (users db)\<rparr>)"
      by (simp add: delete_user_def)
    show "user_id \<notin> u_id ` set (users (snd (delete_user user_id db)))"
      by (auto simp: del)
  next
    assume "agroquimico_id \<notin> m_id ` set (m_agroquimicos db)"
    from absent [OF this]
    show "delete_agroquimico agroquimico_id db = (Returns_error Agroquimico_no_encontrado, db)"
      by (simp add: delete_agroquimico_def)
  next
    assume "agroquimico_id \<in> m_id ` set (m_agroquimicos db)"
    from present [OF this] obtain a where
      "find (\<lambda>a. m_id a = agroquimico_id) (m_agroquimicos db) = Some a" "m_id a = agroquimico_id"
      by blast
    then show del: "delete_agroquimico agroquimico_id db =
        (Returns Agroquimico_eliminado,
         db\<lparr>m_agroquimicos := filter (\<lambda>a. m_id a \<noteq> agroquimico_id) (m_agroquimicos db)\<rparr>)"
      by (simp add: delete_agroquimico_def)
    show "agroquimico_id \<notin> m_id ` set (m_agroquimicos (snd (delete_agroquimico agroquimico_id db)))"
      by (auto simp: del)
  qed
qed

theorem delete_by_id_witness:
  "3 \<notin> u_id ` set (users ((main_glifosato_db 100 50)
          \<lparr>users := [\<lparr>u_id = 1, u_name = ''Ana'', u_email = ''ana@example.org''\<rparr>]\<rparr>))
   \<and> delete_user 3 ((main_glifosato_db 100 50)
          \<lparr>users := [\<lparr>u_id = 1, u_name = ''Ana'', u_email = ''ana@example.org''\<rparr>]\<rparr>)
       = (Returns_error Usuario_no_encontrado, (main_glifosato_db 100 50)
          \<lparr>users := [\<lparr>u_id = 1, u_name = ''Ana'', u_email = ''ana@example.org''\<rparr>]\<rparr>)
   \<and> 7 \<notin> m_id ` set (m_agroquimicos ((main_glifosato_db 100 50)
          \<lparr>users := [\<lparr>u_id = 1, u_name = ''Ana'', u_email = ''ana@example.org''\<rparr>]\<rparr>))
   \<and> delete_agroquimico 7 ((main_glifosato_db 100 50)
          \<lparr>users := [\<lparr>u_id = 1, u_name = ''Ana'', u_email = ''ana@example.org''\<rparr>]\<rparr>)
       = (Returns_error Agroquimico_no_encontrado, (main_glifosato_db 100 50)
          \<lparr>users := [\<lparr>u_id = 1, u_name = ''Ana'', u_email = ''ana@example.org''\<rparr>]\<rparr>)
   \<and> 1 \<in> u_id ` set (users ((main_glifosato_db 100 50)
          \<lparr>users := [\<lparr>u_id = 1, u_name = ''Ana'', u_email = ''ana@example.org''\<rparr>]\<rparr>))
   \<and> delete_user 1 ((main_glifosato_db 100 50)
          \<lparr>users := [\<lparr>u_id = 1, u_name = ''Ana'', u_email = ''ana@example.org''\<rparr>]\<rparr>)
       = (Returns Usuario_eliminado, main_glifosato_db 100 50)
   \<and> 1 \<in> m_id ` set (m_agroquimicos ((main_glifosato_db 100 50)
          \<lparr>users := [\<lparr>u_id = 1, u_name = ''Ana'', u_email = ''ana@example.org''\<rparr>]\<rparr>))
   \<and> delete_agroquimico 1 ((main_glifosato_db 100 50)
          \<lparr>users := [\<lparr>u_id = 1, u_name = ''Ana'', u_email = ''ana@example.org''\<rparr>]\<rparr>)
       = (Returns Agroquimico_eliminado,
          \<lparr>users = [\<lparr>u_id = 1, u_name = ''Ana'', u_email = ''ana@example.org''\<rparr>],
           m_agroquimicos = [], m_gastos = []\<rparr>)"
  using
    delete_by_id [of 3 "(main_glifosato_db 100 50)
          \<lparr>users := [\<lparr>u_id = 1, u_name = ''Ana'', u_email = ''ana@example.org''\<rparr>]\<rparr>" 7]
    delete_by_id [of 1 "(main_glifosato_db 100 50)
          \<lparr>users := [\<lparr>u_id = 1, u_name = ''Ana'', u_email = ''ana@example.org''\<rparr>]\<rparr>" 1]
  by (simp add: main_glifosato_def main_glifosato_db_def)

subsection \<open>The stock never goes negative\<close>

text \<open>
  Every request keeps the invariant that no stored agrochemical has a negative quantity:
  an application writes \<open>cantidad - necesaria\<close> only after checking that \<open>cantidad\<close> is
  not less than \<open>necesaria\<close>, a deletion removes rows, and the other requests do not touch
  a stored quantity.
\<close>

lemma main_step_stock_ok:
  assumes "main_stock_ok db" and "main_op_ok op"
  shows "main_stock_ok (main_step op db)"
proof (cases op)
  case (Create_user req)
  with assms show ?thesis by (simp add: create_user_def Let_def main_stock_ok_def)
next
  case Get_users
  with assms show ?thesis by (simp add: get_users_def)
next
  case (Delete_user i)
  with assms show ?thesis
    by (simp add: delete_user_def main_stock_ok_def split: option.splits)
next
  case (Create_agroquimico req)
  with assms show ?thesis
    by (simp add: main_create_agroquimico_def Let_def main_stock_ok_def)
next
  case Get_agroquimicos
  with assms show ?thesis by (simp add: main_get_agroquimicos_def)
next
  case (Delete_agroquimico i)
  with assms show ?thesis
    by (auto simp: delete_agroquimico_def main_stock_ok_def list_all_iff split: option.splits)
next
  case (Aplicar_agroquimico i req now)
  with assms show ?thesis
    by (auto simp: main_aplicar_agroquimico_def Let_def main_stock_ok_def list_all_iff
        split: option.splits)
next
  case Get_gastos
  with assms show ?thesis by (simp add: main_get_gastos_def)
qed

lemma main_run_stock_ok:
  "main_stock_ok db \<Longrightarrow> list_all main_op_ok ops \<Longrightarrow> main_stock_ok (main_run ops db)"
  unfolding main_run_def
  by (induction ops arbitrary: db) (simp_all add: main_step_stock_ok)

lemma ruralis_step_stock_ok:
  assumes "ruralis_stock_ok db" and "ruralis_op_ok op"
  shows "ruralis_stock_ok (ruralis_step op db)"
proof (cases op)
  case (R_create_agroquimico req)
  with assms show ?thesis
    by (simp add: ruralis_create_agroquimico_def Let_def ruralis_stock_ok_def)
next
  case R_get_agroquimicos
  with assms show ?thesis by (simp add: ruralis_get_agroquimicos_def)
next
  case (R_aplicar_agroquimico i req http now)
  with assms show ?thesis
    by (auto simp: ruralis_aplicar_agroquimico_def Let_def ruralis_stock_ok_def list_all_iff
        split: option.splits sum.splits)
next
  case R_get_gastos
  with assms show ?thesis by (simp add: ruralis_get_gastos_def)
next
  case R_get_costo_total
  with assms show ?thesis
    by (simp add: get_costo_total_def get_costo_total_in_def Let_def)
qed

lemma ruralis_run_stock_ok:
  "ruralis_stock_ok db \<Longrightarrow> list_all ruralis_op_ok ops \<Longrightarrow> ruralis_stock_ok (ruralis_run ops db)"
  unfolding ruralis_run_def
  by (induction ops arbitrary: db) (simp_all add: ruralis_step_stock_ok)

lemma list_all_take: "list_all P xs \<Longrightarrow> list_all P (take n xs)"
  by (auto simp: list_all_iff dest: in_set_takeD)

text \<open>
  C8. If every stored agrochemical has a non-negative quantity, then after every prefix of
  every sequence of requests (create with a non-negative quantity, list, delete, apply with
  positive dose and hectares, and the other endpoints) every stored agrochemical still has a
  non-negative quantity; and an application that would bring the quantity below zero returns
  the insufficient-stock error and leaves the store unchanged. Both versions.
\<close>

theorem stock_never_negative:
  "(main_stock_ok mdb \<longrightarrow> list_all main_op_ok mops \<longrightarrow>
      (\<forall>n. main_stock_ok (main_run (take n mops) mdb)))
   \<and> (ruralis_stock_ok db \<longrightarrow> list_all ruralis_op_ok ops \<longrightarrow>
      (\<forall>n. ruralis_stock_ok (ruralis_run (take n ops) db)))
   \<and> (find (\<lambda>b. m_id b = j) (m_agroquimicos mdb) = Some b \<longrightarrow>
      m_cantidad b - dosis_por_ha mreq * m_hectareas mreq < 0 \<longrightarrow>
      main_aplicar_agroquimico j mreq mnow mdb = (Returns_error Stock_insuficiente, mdb))
   \<and> (find (\<lambda>a. r_id a = i) (r_agroquimicos db) = Some a \<longrightarrow>
      r_cantidad a - dosis req * r_hectareas req < 0 \<longrightarrow>
      ruralis_aplicar_agroquimico i req http now db = (Returns_error Stock_insuficiente, db))"
  by (simp add: main_run_stock_ok ruralis_run_stock_ok list_all_take
      main_aplicar_agroquimico_def ruralis_aplicar_agroquimico_def)

theorem stock_never_negative_witness:
  "main_stock_ok (main_glifosato_db 5 50) \<and> list_all main_op_ok main_session
   \<and> main_stock_ok (main_run (take 5 main_session) (main_glifosato_db 5 50))
   \<and> map m_cantidad (m_agroquimicos (main_run (take 4 main_session) (main_glifosato_db 5 50))) = [5, 20]
   \<and> ruralis_stock_ok (glifosato_db 5 50 ''ARS'') \<and> list_all ruralis_op_ok ruralis_session
   \<and> ruralis_stock_ok (ruralis_run (take 4 ruralis_session) (glifosato_db 5 50 ''ARS''))
   \<and> map r_cantidad (r_agroquimicos (ruralis_run (take 4 ruralis_session) (glifosato_db 5 50 ''ARS''))) = [5, 20]
   \<and> find (\<lambda>b. m_id b = 1) (m_agroquimicos (main_glifosato_db 5 50)) = Some (main_glifosato 5 50)
   \<and> m_cantidad (main_glifosato 5 50) - 2 * 10 < 0
   \<and> main_aplicar_agroquimico 1 \<lparr>dosis_por_ha = 2, m_hectareas = 10\<rparr> ''2025-01-01 10:00:00''
        (main_glifosato_db 5 50) = (Returns_error Stock_insuficiente, main_glifosato_db 5 50)
   \<and> find (\<lambda>a. r_id a = 1) (r_agroquimicos (glifosato_db 5 50 ''ARS'')) = Some (glifosato 5 50 ''ARS'')
   \<and> r_cantidad (glifosato 5 50 ''ARS'') - 2 * 10 < 0
   \<and> ruralis_aplicar_agroquimico 1 \<lparr>dosis = 2, r_hectareas = 10\<rparr> Request_fails ''2025-01-01 10:00:00''
        (glifosato_db 5 50 ''ARS'') = (Returns_error Stock_insuficiente, glifosato_db 5 50 ''ARS'')"
proof -
  have pre: "main_stock_ok (main_glifosato_db 5 50)" "list_all main_op_ok main_session"
    "ruralis_stock_ok (glifosato_db 5 50 ''ARS'')" "list_all ruralis_op_ok ruralis_session"
    "find (\<lambda>b. m_id b = 1) (m_agroquimicos (main_glifosato_db 5 50)) = Some (main_glifosato 5 50)"
    "m_cantidad (main_glifosato 5 50) - 2 * 10 < 0"
    "find (\<lambda>a. r_id a = 1) (r_agroquimicos (glifosato_db 5 50 ''ARS'')) = Some (glifosato 5 50 ''ARS'')"
    "r_cantidad (glifosato 5 50 ''ARS'') - 2 * 10 < 0"
    by (simp_all add: glifosato_def glifosato_db_def main_glifosato_def main_glifosato_db_def
        main_session_def ruralis_session_def
        main_stock_ok_def ruralis_stock_ok_def)
  have m4: "map m_cantidad (m_agroquimicos (main_run (take 4 main_session) (main_glifosato_db 5 50))) = [5, 20]"
    by (simp add: glifosato_def glifosato_db_def main_glifosato_def main_glifosato_db_def
        main_session_def ruralis_session_def main_run_def main_create_agroquimico_def
        main_get_agroquimicos_def main_aplicar_agroquimico_def next_id_def Let_def)
  have r4: "map r_cantidad (r_agroquimicos (ruralis_run (take 4 ruralis_session) (glifosato_db 5 50 ''ARS''))) = [5, 20]"
    by (simp add: glifosato_def glifosato_db_def main_glifosato_def main_glifosato_db_def
        main_session_def ruralis_session_def ruralis_run_def ruralis_create_agroquimico_def
        ruralis_get_agroquimicos_def ruralis_aplicar_agroquimico_def next_id_def
        obtener_tipo_cambio_def obtener_tipo_cambio_try_def Let_def)
  from stock_never_negative
    [of "main_glifosato_db 5 50" main_session "glifosato_db 5 50 ''ARS''" ruralis_session
        1 "main_glifosato 5 50" "\<lparr>dosis_por_ha = 2, m_hectareas = 10\<rparr>" "''2025-01-01 10:00:00''"
        1 "glifosato 5 50 ''ARS''" "\<lparr>dosis = 2, r_hectareas = 10\<rparr>" Request_fails
        "''2025-01-01 10:00:00''"]
    pre m4 r4
  show ?thesis by simp
qed

subsection \<open>The exchange-rate lookup\<close>

text \<open>
  The handler of the lookup catches every exception of its \<^verbatim>\<open>try\<close> block, and a \<^verbatim>\<open>"rates"\<close>
  dictionary without \<^verbatim>\<open>"USD"\<close> gives the fallback too.
\<close>

lemma obtener_tipo_cambio_handler:
  "obtener_tipo_cambio_try http = Inl e \<Longrightarrow> obtener_tipo_cambio http = PFloat 0.001"
  by (simp add: obtener_tipo_cambio_def)

lemma obtener_tipo_cambio_missing_usd:
  assumes "map_of kvs ''rates'' = Some (PDict rs)" and "map_of rs ''USD'' = None"
  shows "obtener_tipo_cambio (Body_json (PDict kvs)) = PFloat 0.001"
  using assms by (simp add: obtener_tipo_cambio_def obtener_tipo_cambio_try_def)

text \<open>
  C6. The claim is that the lookup returns the fixed fallback rate on every failure mode,
  a malformed response included, so that no application that has passed the stock check
  fails because of the rate, and the cost in USD is a finite non-negative number. The code
  does not: when the rate service answers \<^verbatim>\<open>{"rates": {"USD": null}}\<close>, the lookup returns
  \<open>None\<close>, which is not the fallback 0.001, and an application with 100 in stock, a dose of
  2 and 10 hectares, having passed the stock check, raises \<^verbatim>\<open>TypeError\<close> and stores nothing.
\<close>

theorem exchange_rate_null_reply:
  "obtener_tipo_cambio (rate_reply PNone) = PNone
   \<and> PNone \<noteq> PFloat 0.001
   \<and> find (\<lambda>a. r_id a = 1) (r_agroquimicos (glifosato_db 100 50 ''ARS''))
       = Some (glifosato 100 50 ''ARS'')
   \<and> \<not> r_cantidad (glifosato 100 50 ''ARS'')
         < dosis \<lparr>dosis = 2, r_hectareas = 10\<rparr> * r_hectareas \<lparr>dosis = 2, r_hectareas = 10\<rparr>
   \<and> fst (ruralis_aplicar_agroquimico 1 \<lparr>dosis = 2, r_hectareas = 10\<rparr> (rate_reply PNone)
           ''2025-01-01 10:00:00'' (glifosato_db 100 50 ''ARS'')) = Raises TypeError
   \<and> snd (ruralis_aplicar_agroquimico 1 \<lparr>dosis = 2, r_hectareas = 10\<rparr> (rate_reply PNone)
           ''2025-01-01 10:00:00'' (glifosato_db 100 50 ''ARS'')) = glifosato_db 100 50 ''ARS''"
  by (simp add: glifosato_def glifosato_db_def rate_reply_def ruralis_aplicar_agroquimico_def
      obtener_tipo_cambio_def obtener_tipo_cambio_try_def)

subsection \<open>The boundary of the stock check\<close>

text \<open>
  C9. The claim is that an application whose \<open>dosis \<times> hectareas\<close> equals the stored quantity
  succeeds, leaves a stock of exactly zero and creates an expense row. The code of
  \<^verbatim>\<open>src/ruralis/main.py\<close> does not: with exactly 20 in stock, a dose of 2 on 10 hectares and a
  rate service answering \<^verbatim>\<open>{"rates": {"USD": "0.001"}}\<close> (the rate as a string), the stock check
  passes, but the lookup returns the string instead of its fallback and the product with it
  raises \<^verbatim>\<open>TypeError\<close>; the stock stays at 20 and no expense row is created.
\<close>

theorem apply_boundary_rate_string:
  "find (\<lambda>a. r_id a = 1) (r_agroquimicos (glifosato_db 20 50 ''ARS''))
     = Some (glifosato 20 50 ''ARS'')
   \<and> dosis \<lparr>dosis = 2, r_hectareas = 10\<rparr> * r_hectareas \<lparr>dosis = 2, r_hectareas = 10\<rparr>
       = r_cantidad (glifosato 20 50 ''ARS'')
   \<and> ruralis_aplicar_agroquimico 1 \<lparr>dosis = 2, r_hectareas = 10\<rparr>
        (rate_reply (PStr ''0.001'')) ''2025-01-01 10:00:00'' (glifosato_db 20 50 ''ARS'')
      = (Raises TypeError, glifosato_db 20 50 ''ARS'')"
  by (simp add: glifosato_def glifosato_db_def rate_reply_def ruralis_aplicar_agroquimico_def
      obtener_tipo_cambio_def obtener_tipo_cambio_try_def)

subsection \<open>A negative demand\<close>




end
